theory Spec2Isabelle
  imports Main "HOL-Library.AList" "HOL-Library.Sublist"
begin

section \<open>Python values, exceptions and dictionaries\<close>

text \<open>
  The exceptions the modelled code can meet. All of them are subclasses of Python's
  \<open>Exception\<close>, so every \<open>except Exception\<close> handler of the source catches each of
  them. \<open>ExternalError\<close> stands for whatever the browser driver or the completion
  client raises (timeouts, network and service errors).
\<close>

datatype py_error =
    KeyError string
  | TypeError
  | ValueError string
  | AttributeError
  | JSONDecodeError
  | ExternalError

text \<open>
  The values \<open>json.loads\<close> can return. A dictionary is an association list in insertion
  order (keys of a decoded JSON object are strings). A float is kept as the literal it
  was read from: the modelled code never computes with it.
\<close>

datatype pyval =
    PNone
  | PBool bool
  | PInt int
  | PFloat string
  | PStr string
  | PList "pyval list"
  | PDict "(string \<times> pyval) list"

text \<open>
  A job dictionary as \<open>extract_basic_job_info\<close> builds it: string keys, each value a
  \<open>str\<close> or \<open>None\<close> (\<open>get_attribute\<close> may return \<open>None\<close>, and
  \<open>description\<close> starts as \<open>None\<close>).
\<close>

type_synonym job = "(string \<times> string option) list"

text \<open>\<open>d[k]\<close> on a job dictionary: raises \<open>KeyError\<close> when the key is absent.\<close>

definition dict_get :: "job \<Rightarrow> string \<Rightarrow> py_error + string option" where
  "dict_get d k = (case map_of d k of None \<Rightarrow> Inl (KeyError k) | Some v \<Rightarrow> Inr v)"

text \<open>Sequencing of computations that may raise.\<close>

definition bind_err :: "py_error + 'a \<Rightarrow> ('a \<Rightarrow> py_error + 'b) \<Rightarrow> py_error + 'b" where
  "bind_err m f = (case m of Inl e \<Rightarrow> Inl e | Inr x \<Rightarrow> f x)"

section \<open>String operations of the source\<close>

text \<open>\<open>str.isspace\<close> on the code points below 256.\<close>

definition is_space :: "char \<Rightarrow> bool" where
  "is_space c = (let n = (of_char c :: nat) in
     (9 \<le> n \<and> n \<le> 13) \<or> (28 \<le> n \<and> n \<le> 32) \<or> n = 133 \<or> n = 160)"

definition strip :: "string \<Rightarrow> string" where
  "strip s = rev (dropWhile is_space (rev (dropWhile is_space s)))"

definition startswith :: "string \<Rightarrow> string \<Rightarrow> bool" where
  "startswith s p = (take (length p) s = p)"

definition endswith :: "string \<Rightarrow> string \<Rightarrow> bool" where
  "endswith s p = (length p \<le> length s \<and> drop (length s - length p) s = p)"

text \<open>\<open>p in s\<close> for two strings: \<open>p\<close> occurs in \<open>s\<close> as a contiguous block.\<close>

fun is_substring :: "string \<Rightarrow> string \<Rightarrow> bool" where
  "is_substring p [] = (p = [])"
| "is_substring p (c # cs) = (startswith (c # cs) p \<or> is_substring p cs)"

text \<open>\<open>sep.join(xs)\<close> on a list of strings.\<close>

fun str_join :: "string \<Rightarrow> string list \<Rightarrow> string" where
  "str_join sep [] = []"
| "str_join sep [x] = x"
| "str_join sep (x # y # ys) = x @ sep @ str_join sep (y # ys)"

section \<open>Operators on decoded JSON values\<close>

text \<open>
  \<open>field in result\<close>: key membership on a dictionary, element membership on a list,
  substring test on a string, \<open>TypeError\<close> on a value that is not iterable.
\<close>

fun py_contains :: "pyval \<Rightarrow> string \<Rightarrow> py_error + bool" where
  "py_contains (PDict kvs) field = Inr (map_of kvs field \<noteq> None)"
| "py_contains (PList xs) field = Inr (PStr field \<in> set xs)"
| "py_contains (PStr s) field = Inr (is_substring field s)"
| "py_contains _ field = Inl TypeError"

text \<open>\<open>result[field]\<close> with a string subscript.\<close>

fun py_getitem :: "pyval \<Rightarrow> string \<Rightarrow> py_error + pyval" where
  "py_getitem (PDict kvs) field =
     (case map_of kvs field of None \<Rightarrow> Inl (KeyError field) | Some v \<Rightarrow> Inr v)"
| "py_getitem _ field = Inl TypeError"

fun is_PStr :: "pyval \<Rightarrow> bool" where
  "is_PStr (PStr s) = True"
| "is_PStr _ = False"

fun the_PStr :: "pyval \<Rightarrow> string" where
  "the_PStr (PStr s) = s"
| "the_PStr _ = []"

text \<open>
  \<open>sep.join(v)\<close>: iterates a list (every item must be a \<open>str\<close>), the characters of a
  string, or the keys of a dictionary; \<open>TypeError\<close> otherwise.
\<close>

fun py_join :: "string \<Rightarrow> pyval \<Rightarrow> py_error + string" where
  "py_join sep (PList xs) =
     (if list_all is_PStr xs then Inr (str_join sep (map the_PStr xs)) else Inl TypeError)"
| "py_join sep (PStr s) = Inr (str_join sep (map (\<lambda>c. [c]) s))"
| "py_join sep (PDict kvs) = Inr (str_join sep (map fst kvs))"
| "py_join sep _ = Inl TypeError"

section \<open>The analyzer object and its collaborators\<close>

text \<open>
  The record stands for \<open>self\<close>. The collaborators that live outside the repository
  are fields of it, each a function of the state \<open>'w\<close> of the outside world:
  \<^item> \<open>client\<close>: \<open>self.client.chat.completions.create(...)\<close> followed by
    \<open>.choices[0].message.content\<close>; its arguments are the three values the prompt is
    built from (title, resume, description); it raises or returns the content, which
    may be \<open>None\<close>;
  \<^item> \<open>json_loads\<close>: \<open>json.loads\<close>;
  \<^item> \<open>driver_description\<close>: lines 206 to 216 of \<open>extract_job_description\<close>, one
    attempt to load the page and take the text of the description element;
  \<^item> \<open>driver_listings\<close>: \<open>driver.get\<close> and \<open>find_elements\<close> of \<open>scrape_page\<close>, by
    page number and category;
  \<^item> \<open>element_info\<close>: the four reads of \<open>extract_basic_job_info\<close> on one listing
    element (title, url, company, location).
\<close>

record ('w, 'el) analyzer =
  client :: "'w \<Rightarrow> string option \<Rightarrow> string \<Rightarrow> string option \<Rightarrow> (py_error + string option) \<times> 'w"
  json_loads :: "string \<Rightarrow> py_error + pyval"
  driver_description :: "'w \<Rightarrow> string option \<Rightarrow> (py_error + string) \<times> 'w"
  driver_listings :: "'w \<Rightarrow> int \<Rightarrow> string \<Rightarrow> (py_error + 'el list) \<times> 'w"
  element_info :: "'el \<Rightarrow> py_error + (string \<times> string option \<times> string \<times> string)"
  resume :: string
  search_categories :: "string list"
  max_pages :: int

record analyzed_job =
  search_category :: "string option"
  title :: "string option"
  company :: "string option"
  location :: "string option"
  url :: "string option"
  match_score :: pyval
  german_required :: pyval
  key_matches :: string
  missing_skills :: string
  recommendation :: pyval

section \<open>Match analyzer\<close>

text \<open>
  Lines 141 to 150: decode the text; on \<open>JSONDecodeError\<close> (and only on it) strip the
  text, drop a leading \<open>```json\<close> and a trailing \<open>```\<close>, strip again and decode once
  more.
\<close>

definition clean_response :: "string \<Rightarrow> string" where
  "clean_response response_text =
     (let cleaned_response = strip response_text;
          cleaned_response = (if startswith cleaned_response ''```json''
                              then drop 7 cleaned_response else cleaned_response);
          cleaned_response = (if endswith cleaned_response ''```''
                              then take (length cleaned_response - 3) cleaned_response
                              else cleaned_response)
      in strip cleaned_response)"

definition parse_json :: "(string \<Rightarrow> py_error + pyval) \<Rightarrow> string \<Rightarrow> py_error + pyval" where
  "parse_json loads response_text =
     (case loads response_text of
        Inr result \<Rightarrow> Inr result
      | Inl JSONDecodeError \<Rightarrow> loads (clean_response response_text)
      | Inl e \<Rightarrow> Inl e)"

definition required_fields :: "string list" where
  "required_fields =
     [''match_score'', ''german_required'', ''key_matches'', ''missing_skills'',
      ''recommendation'']"

text \<open>Lines 154 to 156: the loop over the required fields.\<close>

fun check_fields :: "pyval \<Rightarrow> string list \<Rightarrow> py_error + unit" where
  "check_fields result [] = Inr ()"
| "check_fields result (field # rest) =
     (case py_contains result field of
        Inl e \<Rightarrow> Inl e
      | Inr present \<Rightarrow>
          if \<not> present then Inl (ValueError field) else check_fields result rest)"

text \<open>Lines 158 to 169: the dictionary literal, its items evaluated in order.\<close>

definition build_analysis :: "job \<Rightarrow> pyval \<Rightarrow> py_error + analyzed_job" where
  "build_analysis job_data result =
     bind_err (dict_get job_data ''search_category'') (\<lambda>v_category.
     bind_err (dict_get job_data ''title'') (\<lambda>v_title.
     bind_err (dict_get job_data ''company'') (\<lambda>v_company.
     bind_err (dict_get job_data ''location'') (\<lambda>v_location.
     bind_err (dict_get job_data ''url'') (\<lambda>v_url.
     bind_err (py_getitem result ''match_score'') (\<lambda>v_score.
     bind_err (py_getitem result ''german_required'') (\<lambda>v_german.
     bind_err (py_getitem result ''key_matches'') (\<lambda>v_matches.
     bind_err (py_join ''; '' v_matches) (\<lambda>s_matches.
     bind_err (py_getitem result ''missing_skills'') (\<lambda>v_missing.
     bind_err (py_join ''; '' v_missing) (\<lambda>s_missing.
     bind_err (py_getitem result ''recommendation'') (\<lambda>v_recommendation.
     Inr \<lparr> search_category = v_category, title = v_title, company = v_company,
           location = v_location, url = v_url, match_score = v_score,
           german_required = v_german, key_matches = s_matches,
           missing_skills = s_missing,
           recommendation = v_recommendation \<rparr>))))))))))))"

text \<open>
  Lines 139 to 172, from the outcome of the completion call on: \<open>.strip()\<close> of the
  content (\<open>AttributeError\<close> on \<open>None\<close>), decoding, validation, construction.
\<close>

definition analyze_response ::
  "(string \<Rightarrow> py_error + pyval) \<Rightarrow> job \<Rightarrow> py_error + string option \<Rightarrow> py_error + analyzed_job" where
  "analyze_response loads job_data response =
     bind_err response (\<lambda>content.
     bind_err (case content of None \<Rightarrow> Inl AttributeError | Some c \<Rightarrow> Inr (strip c))
       (\<lambda>response_text.
     bind_err (parse_json loads response_text) (\<lambda>result.
     bind_err (check_fields result required_fields) (\<lambda>_.
     build_analysis job_data result))))"

text \<open>
  The body of the \<open>try\<close> of \<open>analyze_with_gpt\<close> (lines 93 to 172). The title is read
  for the first \<open>print\<close> and the prompt, the description for the prompt; a missing key
  raises before the client is called, and the world is then unchanged.
\<close>

definition analyze_try ::
  "('w, 'el) analyzer \<Rightarrow> job \<Rightarrow> 'w \<Rightarrow> (py_error + analyzed_job) \<times> 'w" where
  "analyze_try self job_data w =
     (case dict_get job_data ''title'' of
        Inl e \<Rightarrow> (Inl e, w)
      | Inr v_title \<Rightarrow>
          (case dict_get job_data ''description'' of
             Inl e \<Rightarrow> (Inl e, w)
           | Inr v_description \<Rightarrow>
               (case client self w v_title (resume self) v_description of
                  (response, w') \<Rightarrow>
                    (analyze_response (json_loads self) job_data response, w'))))"

text \<open>Lines 178 to 191.\<close>

definition create_fallback_analysis :: "job \<Rightarrow> py_error + analyzed_job" where
  "create_fallback_analysis job_data =
     bind_err (dict_get job_data ''search_category'') (\<lambda>v_category.
     bind_err (dict_get job_data ''title'') (\<lambda>v_title.
     bind_err (dict_get job_data ''company'') (\<lambda>v_company.
     bind_err (dict_get job_data ''location'') (\<lambda>v_location.
     bind_err (dict_get job_data ''url'') (\<lambda>v_url.
     Inr \<lparr> search_category = v_category, title = v_title, company = v_company,
           location = v_location, url = v_url, match_score = PInt 0,
           german_required = PStr ''No'', key_matches = ''Analysis failed'',
           missing_skills = ''Analysis failed'',
           recommendation = PStr ''Analysis failed - please review manually'' \<rparr>)))))"

text \<open>
  \<open>analyze_with_gpt\<close>: the \<open>try\<close> with its handler (lines 174 to 176). The handler
  reads the title for its \<open>print\<close> and then builds the fallback; an exception raised
  there leaves the method.
\<close>

definition analyze_with_gpt ::
  "('w, 'el) analyzer \<Rightarrow> job \<Rightarrow> 'w \<Rightarrow> (py_error + analyzed_job) \<times> 'w" where
  "analyze_with_gpt self job_data w =
     (case analyze_try self job_data w of
        (Inr analyzed, w') \<Rightarrow> (Inr analyzed, w')
      | (Inl e, w') \<Rightarrow>
          (case dict_get job_data ''title'' of
             Inl e' \<Rightarrow> (Inl e', w')
           | Inr _ \<Rightarrow> (create_fallback_analysis job_data, w')))"

section \<open>Description fetcher\<close>

text \<open>
  \<open>extract_job_description\<close> (lines 204 to 226): the loop over
  \<open>range(max_retries)\<close>. The result is the returned value (\<open>None\<close> when the loop
  ends without a \<open>return\<close>), the number of attempts made, and the world.
\<close>

fun extract_attempts ::
  "('w, 'el) analyzer \<Rightarrow> string option \<Rightarrow> int \<Rightarrow> nat list \<Rightarrow> nat \<Rightarrow> 'w
     \<Rightarrow> string option \<times> nat \<times> 'w" where
  "extract_attempts self page_url max_retries [] n w = (None, n, w)"
| "extract_attempts self page_url max_retries (attempt # rest) n w =
     (case driver_description self w page_url of
        (Inr description, w') \<Rightarrow> (Some description, Suc n, w')
      | (Inl e, w') \<Rightarrow>
          if int attempt = max_retries - 1
          then (Some ''Failed to fetch description'', Suc n, w')
          else extract_attempts self page_url max_retries rest (Suc n) w')"

definition extract_job_description ::
  "('w, 'el) analyzer \<Rightarrow> string option \<Rightarrow> int \<Rightarrow> 'w \<Rightarrow> string option \<times> nat \<times> 'w" where
  "extract_job_description self page_url max_retries w =
     extract_attempts self page_url max_retries [0..<nat max_retries] 0 w"

section \<open>Listing harvester\<close>

text \<open>Lines 230 to 256: any exception while reading the element gives \<open>None\<close>.\<close>

definition extract_basic_job_info :: "('w, 'el) analyzer \<Rightarrow> 'el \<Rightarrow> string \<Rightarrow> job option" where
  "extract_basic_job_info self job_element category =
     (case element_info self job_element of
        Inl e \<Rightarrow> None
      | Inr (v_title, v_url, v_company, v_location) \<Rightarrow>
          Some [(''search_category'', Some category), (''title'', Some v_title),
                (''company'', Some v_company), (''location'', Some v_location),
                (''url'', v_url), (''description'', None)])"

text \<open>Lines 269 to 292: an exception of the driver gives the empty list.\<close>

definition scrape_page ::
  "('w, 'el) analyzer \<Rightarrow> int \<Rightarrow> string \<Rightarrow> 'w \<Rightarrow> job list \<times> 'w" where
  "scrape_page self page_number category w =
     (case driver_listings self w page_number category of
        (Inl e, w') \<Rightarrow> ([], w')
      | (Inr job_listings, w') \<Rightarrow>
          (List.map_filter (\<lambda>job_listing. extract_basic_job_info self job_listing category)
             job_listings, w'))"

section \<open>Deduplicator\<close>

text \<open>Lines 296 to 305: the loop with its two accumulators.\<close>

fun remove_duplicates_loop ::
  "job list \<Rightarrow> job list \<Rightarrow> string option set \<Rightarrow> py_error + job list" where
  "remove_duplicates_loop [] unique_jobs seen_urls = Inr unique_jobs"
| "remove_duplicates_loop (job # rest) unique_jobs seen_urls =
     (case dict_get job ''url'' of
        Inl e \<Rightarrow> Inl e
      | Inr v_url \<Rightarrow>
          if v_url \<notin> seen_urls
          then remove_duplicates_loop rest (unique_jobs @ [job]) (insert v_url seen_urls)
          else remove_duplicates_loop rest unique_jobs seen_urls)"

definition remove_duplicates :: "job list \<Rightarrow> py_error + job list" where
  "remove_duplicates jobs = remove_duplicates_loop jobs [] {}"

section \<open>Pipeline\<close>

text \<open>
  Lines 317 to 324 for one category: the pages in order, a \<open>break\<close> at the first page
  without jobs. Besides the jobs the result lists every call of \<open>scrape_page\<close> made,
  as the page number and what the call returned.
\<close>

fun harvest_pages ::
  "('w, 'el) analyzer \<Rightarrow> string \<Rightarrow> int list \<Rightarrow> 'w
     \<Rightarrow> job list \<times> (int \<times> job list) list \<times> 'w" where
  "harvest_pages self category [] w = ([], [], w)"
| "harvest_pages self category (page # rest) w =
     (case scrape_page self page category w of
        (page_jobs, w') \<Rightarrow>
          if page_jobs = [] then ([], [(page, page_jobs)], w')
          else (case harvest_pages self category rest w' of
                  (more_jobs, calls, w'') \<Rightarrow>
                    (page_jobs @ more_jobs, (page, page_jobs) # calls, w'')))"

text \<open>Lines 312 to 324: \<open>range(1, max_pages + 1)\<close> for each category in turn.\<close>

fun harvest_categories ::
  "('w, 'el) analyzer \<Rightarrow> string list \<Rightarrow> 'w
     \<Rightarrow> job list \<times> (string \<times> int \<times> job list) list \<times> 'w" where
  "harvest_categories self [] w = ([], [], w)"
| "harvest_categories self (category # rest) w =
     (case harvest_pages self category [1..max_pages self] w of
        (jobs, calls, w') \<Rightarrow>
          (case harvest_categories self rest w' of
             (more_jobs, more_calls, w'') \<Rightarrow>
               (jobs @ more_jobs,
                map (\<lambda>(page, page_jobs). (category, page, page_jobs)) calls @ more_calls,
                w'')))"

text \<open>\<open>not description\<close> is true for \<open>None\<close> and for the empty string.\<close>

definition truthy :: "string option \<Rightarrow> bool" where
  "truthy description = (case description of None \<Rightarrow> False | Some s \<Rightarrow> s \<noteq> [])"

text \<open>
  The body of the \<open>try\<close> of the second pass (lines 336 to 350) for one job:
  \<open>Inr None\<close> is the \<open>continue\<close> of line 341, \<open>Inr (Some a)\<close> the \<open>append\<close> of
  line 348 (the analyzed dictionary has ten keys, so it is true). The description is
  fetched with the default \<open>max_retries = 3\<close>.
\<close>

definition process_job_try ::
  "('w, 'el) analyzer \<Rightarrow> job \<Rightarrow> 'w \<Rightarrow> (py_error + analyzed_job option) \<times> 'w" where
  "process_job_try self job w =
     (case dict_get job ''title'' of
        Inl e \<Rightarrow> (Inl e, w)
      | Inr _ \<Rightarrow>
          (case dict_get job ''url'' of
             Inl e \<Rightarrow> (Inl e, w)
           | Inr v_url \<Rightarrow>
               (case extract_job_description self v_url 3 w of
                  (description, n, w1) \<Rightarrow>
                    if \<not> truthy description then (Inr None, w1)
                    else (case analyze_with_gpt self
                                 (AList.update ''description'' description job) w1 of
                            (Inl e, w2) \<Rightarrow> (Inl e, w2)
                          | (Inr analyzed, w2) \<Rightarrow> (Inr (Some analyzed), w2)))))"

text \<open>
  Lines 334 to 354: the loop of the second pass. The handler of line 352 reads the
  title for its \<open>print\<close> and goes on with the next job.
\<close>

fun analyze_jobs ::
  "('w, 'el) analyzer \<Rightarrow> job list \<Rightarrow> analyzed_job list \<Rightarrow> 'w
     \<Rightarrow> (py_error + analyzed_job list) \<times> 'w" where
  "analyze_jobs self [] analyzed_jobs w = (Inr analyzed_jobs, w)"
| "analyze_jobs self (job # rest) analyzed_jobs w =
     (case process_job_try self job w of
        (Inr None, w') \<Rightarrow> analyze_jobs self rest analyzed_jobs w'
      | (Inr (Some analyzed), w') \<Rightarrow> analyze_jobs self rest (analyzed_jobs @ [analyzed]) w'
      | (Inl e, w') \<Rightarrow>
          (case dict_get job ''title'' of
             Inl e' \<Rightarrow> (Inl e', w')
           | Inr _ \<Rightarrow> analyze_jobs self rest analyzed_jobs w'))"

text \<open>
  The save block (lines 357 to 379). As shipped, line 361 starts at column 10 inside
  a block whose lines start at column 12, and Python refuses the file for it (see
  \<open>save_block_columns\<close> below). \<open>save_results\<close> is the block as its other lines
  have it, with line 361 at column 12:
  \<^item> the effects of lines 358 to 363: the files written with \<open>to_csv\<close>, each a list of
    rows with the inserted \<open>S.No\<close> column first, and the line \<open>Total jobs analyzed\<close>
    that opens the printed summary (writing the file is taken to succeed);
  \<^item> the outcome of lines 364 to 379, which print statistics that pandas computes from
    the table (means, a grouping, the five best rows). They are floating point and
    outside the repository, so they are the parameter \<open>statistics\<close>: it returns, or
    raises once the file is written (\<open>mean\<close> raises \<open>TypeError\<close> on a score that is
    not a number).
\<close>

record report =
  csv_files :: "(int \<times> analyzed_job) list list"
  summary_total :: "nat option"

definition save_results ::
  "((int \<times> analyzed_job) list \<Rightarrow> py_error + unit) \<Rightarrow> analyzed_job list
     \<Rightarrow> (py_error + unit) \<times> report" where
  "save_results statistics analyzed_jobs =
     (if analyzed_jobs \<noteq> []
      then (let df = zip [1..int (length analyzed_jobs)] analyzed_jobs
            in (statistics df, \<lparr> csv_files = [df], summary_total = Some (length df) \<rparr>))
      else (Inr (), \<lparr> csv_files = [], summary_total = None \<rparr>))"

text \<open>
  \<open>process_jobs\<close> (lines 307 to 379): harvest, deduplicate, analyze, save. The method
  returns nothing; the result here is how it ends (it returns, or an exception leaves
  it), what it wrote and printed until then, and the world.
\<close>

definition process_jobs ::
  "('w, 'el) analyzer \<Rightarrow> ((int \<times> analyzed_job) list \<Rightarrow> py_error + unit) \<Rightarrow> 'w
     \<Rightarrow> (py_error + unit) \<times> report \<times> 'w" where
  "process_jobs self statistics w =
     (case harvest_categories self (search_categories self) w of
        (all_jobs, calls, w1) \<Rightarrow>
          (case remove_duplicates all_jobs of
             Inl e \<Rightarrow> (Inl e, \<lparr> csv_files = [], summary_total = None \<rparr>, w1)
           | Inr unique_jobs \<Rightarrow>
               (case analyze_jobs self unique_jobs [] w1 of
                  (Inl e, w2) \<Rightarrow> (Inl e, \<lparr> csv_files = [], summary_total = None \<rparr>, w2)
                | (Inr analyzed_jobs, w2) \<Rightarrow>
                    (case save_results statistics analyzed_jobs of
                       (outcome, written) \<Rightarrow> (outcome, written, w2)))))"

section \<open>The layout of the save block\<close>

text \<open>
  The column at which each of lines 357 to 363 of the source starts: the \<open>if\<close> at 8,
  its block at 12, and line 361 at 10.
\<close>

definition save_block_columns :: "nat list" where
  "save_block_columns = [8, 12, 12, 12, 10, 12, 12]"

text \<open>
  Python's rule for the first token of a line, with the stack of open indentation
  levels (innermost first): a larger column opens a level, an equal one keeps the
  stack, a smaller one must be one of the open levels, which are closed down to it;
  otherwise the line is refused with \<open>IndentationError\<close> (\<open>None\<close>) and the file does
  not compile.
\<close>

definition layout_line :: "nat list \<Rightarrow> nat \<Rightarrow> nat list option" where
  "layout_line levels column =
     (case levels of
        [] \<Rightarrow> None
      | innermost # _ \<Rightarrow>
          if innermost < column then Some (column # levels)
          else if column \<in> set levels then Some (dropWhile (\<lambda>level. column < level) levels)
          else None)"

text \<open>The number of the first line that is refused, if any.\<close>

primrec refused_line :: "nat list \<Rightarrow> nat \<Rightarrow> nat list \<Rightarrow> nat option" where
  "refused_line [] line_number levels = None"
| "refused_line (column # rest) line_number levels =
     (case layout_line levels column of
        None \<Rightarrow> Some line_number
      | Some levels' \<Rightarrow> refused_line rest (Suc line_number) levels')"

section \<open>Specification-side definitions\<close>

text \<open>The deduplication key of a job.\<close>

definition url_of :: "job \<Rightarrow> string option option" where
  "url_of job = map_of job ''url''"

text \<open>
  The specification's wording of the deduplicator, to be compared with
  \<open>remove_duplicates\<close>: the records at the positions whose URL occurs at no earlier
  position, in input order.
\<close>

definition first_occurrences :: "job list \<Rightarrow> job list" where
  "first_occurrences jobs =
     map (\<lambda>i. jobs ! i)
       (filter (\<lambda>i. \<forall>k<i. url_of (jobs ! k) \<noteq> url_of (jobs ! i)) [0..<length jobs])"

text \<open>The same selection by recursion over the list, with the keys met so far.\<close>

fun unseen_firsts :: "string option option set \<Rightarrow> job list \<Rightarrow> job list" where
  "unseen_firsts seen [] = []"
| "unseen_firsts seen (job # rest) =
     (if url_of job \<in> seen then unseen_firsts seen rest
      else job # unseen_firsts (insert (url_of job) seen) rest)"

text \<open>The specification's range of a match score: an integer from 0 to 100.\<close>

fun score_in_range :: "pyval \<Rightarrow> bool" where
  "score_in_range (PInt n) = (0 \<le> n \<and> n \<le> 100)"
| "score_in_range _ = False"

text \<open>
  Where the score of an analyzed job can come from: the 0 of the fallback record, or
  the \<open>match_score\<close> member of the object that an answer of the oracle, given for a
  job of this title, decodes to.
\<close>

definition score_from_oracle :: "('w, 'el) analyzer \<Rightarrow> analyzed_job \<Rightarrow> bool" where
  "score_from_oracle self analyzed =
     (match_score analyzed = PInt 0
      \<or> (\<exists>w v_description content w' kvs.
            client self w (title analyzed) (resume self) v_description =
              (Inr (Some content), w')
            \<and> parse_json (json_loads self) (strip content) = Inr (PDict kvs)
            \<and> map_of kvs ''match_score'' = Some (match_score analyzed)))"

section \<open>A concrete run\<close>

text \<open>
  One job as the harvester builds it and as the second pass completes it, one answer
  of the oracle, and an analyzer whose collaborators are fixed: the world is the
  number of calls made so far, the site has one listing on page 1 of every category
  and none on later pages. \<open>example_loads\<close> agrees with \<open>json.loads\<close> on every text
  it is given in this theory: \<open>example_text\<close> is decoded to \<open>example_result\<close>, and
  the other texts (they start with a backtick) are no JSON documents.
\<close>

definition example_listing :: job where
  "example_listing =
     [(''search_category'', Some ''product''), (''title'', Some ''Product Manager''),
      (''company'', Some ''Acme''), (''location'', Some ''Berlin''),
      (''url'', Some ''https://www.arbeitnow.com/jobs/1''), (''description'', None)]"

definition example_job :: job where
  "example_job =
     [(''search_category'', Some ''product''), (''title'', Some ''Product Manager''),
      (''company'', Some ''Acme''), (''location'', Some ''Berlin''),
      (''url'', Some ''https://www.arbeitnow.com/jobs/1''),
      (''description'', Some ''Own the roadmap'')]"

definition example_text :: string where
  \<open>example_text = ''{"match_score": 150, "german_required": "No", "key_matches": ["sql", "python"], "missing_skills": ["german"], "recommendation": "apply"}''\<close>

definition example_result :: pyval where
  "example_result =
     PDict [(''match_score'', PInt 150), (''german_required'', PStr ''No''),
            (''key_matches'', PList [PStr ''sql'', PStr ''python'']),
            (''missing_skills'', PList [PStr ''german'']),
            (''recommendation'', PStr ''apply'')]"

definition example_loads :: "string \<Rightarrow> py_error + pyval" where
  "example_loads s = (if s = example_text then Inr example_result else Inl JSONDecodeError)"

definition example_analyzer ::
  "py_error + string \<Rightarrow> py_error + string option \<Rightarrow> (nat, string) analyzer" where
  "example_analyzer fetched answer =
     \<lparr> client = (\<lambda>w v_title v_resume v_description. (answer, Suc w)),
       json_loads = example_loads,
       driver_description = (\<lambda>w page_url. (fetched, Suc w)),
       driver_listings =
         (\<lambda>w page_number category.
            (if page_number = 1 then Inr [''listing''] else Inr [], Suc w)),
       element_info =
         (\<lambda>job_element.
            Inr (''Product Manager'', Some ''https://www.arbeitnow.com/jobs/1'', ''Acme'',
                 ''Berlin'')),
       resume = ''Ten years of product work'',
       search_categories = [''product''],
       max_pages = 2 \<rparr>"

definition example_analyzed :: analyzed_job where
  "example_analyzed =
     \<lparr> search_category = Some ''product'', title = Some ''Product Manager'',
       company = Some ''Acme'', location = Some ''Berlin'',
       url = Some ''https://www.arbeitnow.com/jobs/1'', match_score = PInt 150,
       german_required = PStr ''No'', key_matches = ''sql; python'',
       missing_skills = ''german'', recommendation = PStr ''apply'' \<rparr>"

definition example_fallback :: analyzed_job where
  "example_fallback =
     \<lparr> search_category = Some ''product'', title = Some ''Product Manager'',
       company = Some ''Acme'', location = Some ''Berlin'',
       url = Some ''https://www.arbeitnow.com/jobs/1'', match_score = PInt 0,
       german_required = PStr ''No'', key_matches = ''Analysis failed'',
       missing_skills = ''Analysis failed'',
       recommendation = PStr ''Analysis failed - please review manually'' \<rparr>"

text \<open>
  A second answer, with a score inside the range, and \<open>json.loads\<close> on the texts of
  the run that uses it: it decodes both answers.
\<close>

definition modest_text :: string where
  \<open>modest_text = ''{"match_score": 85, "german_required": "Yes", "key_matches": [], "missing_skills": [], "recommendation": "apply"}''\<close>

definition modest_result :: pyval where
  "modest_result =
     PDict [(''match_score'', PInt 85), (''german_required'', PStr ''Yes''),
            (''key_matches'', PList []), (''missing_skills'', PList []),
            (''recommendation'', PStr ''apply'')]"

definition modest_loads :: "string \<Rightarrow> py_error + pyval" where
  "modest_loads s =
     (if s = example_text then Inr example_result
      else if s = modest_text then Inr modest_result
      else Inl JSONDecodeError)"

definition modest_analyzed :: analyzed_job where
  "modest_analyzed =
     \<lparr> search_category = Some ''product'', title = Some ''Product Manager'',
       company = Some ''Acme'', location = Some ''Berlin'',
       url = Some ''https://www.arbeitnow.com/jobs/1'', match_score = PInt 85,
       german_required = PStr ''Yes'', key_matches = [], missing_skills = [],
       recommendation = PStr ''apply'' \<rparr>"

section \<open>Basic facts\<close>

lemma bind_err_simps [simp]:
  "bind_err (Inl e) f = Inl e" "bind_err (Inr x) f = f x"
  by (simp_all add: bind_err_def)

lemma dict_get_Some: "map_of d k = Some v \<Longrightarrow> dict_get d k = Inr v"
  by (simp add: dict_get_def)

lemma dict_get_None: "map_of d k = None \<Longrightarrow> dict_get d k = Inl (KeyError k)"
  by (simp add: dict_get_def)

section \<open>Deduplicator: first occurrences\<close>

lemma remove_duplicates_loop_unseen:
  "\<forall>job \<in> set jobs. map_of job ''url'' \<noteq> None \<Longrightarrow>
   remove_duplicates_loop jobs unique_jobs seen_urls =
     Inr (unique_jobs @ unseen_firsts (Some ` seen_urls) jobs)"
proof (induction jobs arbitrary: unique_jobs seen_urls)
  case Nil
  then show ?case by simp
next
  case (Cons job rest)
  from Cons.prems obtain v where v: "map_of job ''url'' = Some v" by auto
  have ih: "\<And>u s. remove_duplicates_loop rest u s = Inr (u @ unseen_firsts (Some ` s) rest)"
    using Cons.IH Cons.prems by simp
  show ?case
    by (simp add: dict_get_def v url_of_def ih image_iff)
qed

lemma unseen_firsts_index:
  "unseen_firsts seen jobs =
     map (\<lambda>i. jobs ! i)
       (filter (\<lambda>i. url_of (jobs ! i) \<notin> seen \<and> (\<forall>k<i. url_of (jobs ! k) \<noteq> url_of (jobs ! i)))
          [0..<length jobs])"
proof (induction jobs arbitrary: seen)
  case Nil
  then show ?case by simp
next
  case (Cons job rest)
  have shift: "[0..<length (job # rest)] = 0 # map Suc [0..<length rest]"
    by (simp add: upt_conv_Cons map_Suc_upt del: upt_Suc)
  have all_Suc: "\<And>i P. (\<forall>k<Suc i. P k) = (P 0 \<and> (\<forall>k<i. P (Suc k)))"
    by (metis less_Suc_eq_0_disj)
  show ?case
  proof (cases "url_of job \<in> seen")
    case True
    have "filter (\<lambda>i. url_of (rest ! i) \<notin> seen \<and> (\<forall>k<i. url_of (rest ! k) \<noteq> url_of (rest ! i)))
            [0..<length rest] =
          filter (\<lambda>i. url_of (rest ! i) \<notin> seen \<and> url_of job \<noteq> url_of (rest ! i)
                    \<and> (\<forall>k<i. url_of (rest ! k) \<noteq> url_of (rest ! i))) [0..<length rest]"
      using True by (intro filter_cong refl) auto
    with True show ?thesis
      unfolding shift by (simp add: Cons.IH filter_map comp_def all_Suc)
  next
    case False
    have "filter (\<lambda>i. url_of (rest ! i) \<noteq> url_of job \<and> url_of (rest ! i) \<notin> seen
                    \<and> (\<forall>k<i. url_of (rest ! k) \<noteq> url_of (rest ! i))) [0..<length rest] =
          filter (\<lambda>i. url_of (rest ! i) \<notin> seen \<and> url_of job \<noteq> url_of (rest ! i)
                    \<and> (\<forall>k<i. url_of (rest ! k) \<noteq> url_of (rest ! i))) [0..<length rest]"
      by (intro filter_cong refl) auto
    with False show ?thesis
      unfolding shift by (simp add: Cons.IH filter_map comp_def all_Suc)
  qed
qed

lemma unseen_firsts_subseq: "subseq (unseen_firsts seen jobs) jobs"
  by (induction jobs arbitrary: seen) auto

lemma unseen_firsts_urls:
  "url_of ` set (unseen_firsts seen jobs) = url_of ` set jobs - seen"
  by (induction jobs arbitrary: seen) auto

lemma unseen_firsts_distinct: "distinct (map url_of (unseen_firsts seen jobs))"
  by (induction jobs arbitrary: seen) (auto simp: unseen_firsts_urls)

lemma first_occurrences_unseen: "first_occurrences jobs = unseen_firsts {} jobs"
  by (simp add: first_occurrences_def unseen_firsts_index)

text \<open>
  Claim C5. For every sequence of job records (dictionaries that have a \<open>url\<close> key),
  \<open>remove_duplicates\<close> raises nothing and returns exactly the first occurrence of
  each URL in input order: the output is no longer than the input, no two output
  records have the same URL, the output is a subsequence of the input (order kept,
  records unchanged), and every URL of the input survives.
\<close>

theorem remove_duplicates_first_occurrences:
  assumes "\<forall>job \<in> set jobs. map_of job ''url'' \<noteq> None"
  shows "\<exists>unique_jobs. remove_duplicates jobs = Inr unique_jobs
           \<and> unique_jobs = first_occurrences jobs
           \<and> length unique_jobs \<le> length jobs
           \<and> distinct (map url_of unique_jobs)
           \<and> subseq unique_jobs jobs
           \<and> url_of ` set unique_jobs = url_of ` set jobs"
proof -
  have "remove_duplicates jobs = Inr (first_occurrences jobs)"
    using remove_duplicates_loop_unseen [OF assms, of "[]" "{}"]
    by (simp add: remove_duplicates_def first_occurrences_unseen)
  moreover have "subseq (first_occurrences jobs) jobs"
    by (simp add: first_occurrences_unseen unseen_firsts_subseq)
  moreover have "length (first_occurrences jobs) \<le> length jobs"
    using \<open>subseq (first_occurrences jobs) jobs\<close> by (rule list_emb_length)
  moreover have "distinct (map url_of (first_occurrences jobs))"
    by (simp add: first_occurrences_unseen unseen_firsts_distinct)
  moreover have "url_of ` set (first_occurrences jobs) = url_of ` set jobs"
    by (simp add: first_occurrences_unseen unseen_firsts_urls)
  ultimately show ?thesis by simp
qed

theorem remove_duplicates_first_occurrences_witness:
  "remove_duplicates [[(''title'', Some ''a''), (''url'', Some ''u1'')],
                    [(''title'', Some ''b''), (''url'', Some ''u2'')],
                    [(''title'', Some ''c''), (''url'', Some ''u1'')]] =
       Inr [[(''title'', Some ''a''), (''url'', Some ''u1'')],
            [(''title'', Some ''b''), (''url'', Some ''u2'')]]
   \<and> first_occurrences [[(''title'', Some ''a''), (''url'', Some ''u1'')],
                         [(''title'', Some ''b''), (''url'', Some ''u2'')],
                         [(''title'', Some ''c''), (''url'', Some ''u1'')]] =
       [[(''title'', Some ''a''), (''url'', Some ''u1'')],
        [(''title'', Some ''b''), (''url'', Some ''u2'')]]"
proof -
  let ?jobs = "[[(''title'', Some ''a''), (''url'', Some ''u1'')],
                [(''title'', Some ''b''), (''url'', Some ''u2'')],
                [(''title'', Some ''c''), (''url'', Some ''u1'')]] :: job list"
  have h: "\<forall>job \<in> set ?jobs. map_of job ''url'' \<noteq> None" by simp
  have v: "remove_duplicates ?jobs =
       Inr [[(''title'', Some ''a''), (''url'', Some ''u1'')],
            [(''title'', Some ''b''), (''url'', Some ''u2'')]]"
    by (simp add: remove_duplicates_def dict_get_def)
  from remove_duplicates_first_occurrences [OF h] h v show ?thesis by auto
qed

section \<open>Description fetcher: retries\<close>

lemma extract_attempts_all_fail:
  assumes fail: "\<forall>w. isl (fst (driver_description self w page_url))"
  shows "k < nat max_retries \<Longrightarrow>
         \<exists>w'. extract_attempts self page_url max_retries [k..<nat max_retries] n w =
                 (Some ''Failed to fetch description'', n + (nat max_retries - k), w')"
proof (induction "nat max_retries - k" arbitrary: k n w)
  case 0
  then show ?case by simp
next
  case (Suc d)
  obtain r w1 where step: "driver_description self w page_url = (r, w1)"
    by (cases "driver_description self w page_url")
  with fail have "isl r" by (metis fst_conv)
  then obtain e where r: "r = Inl e" by (cases r) auto
  have range: "[k..<nat max_retries] = k # [Suc k..<nat max_retries]"
    using Suc.prems by (simp add: upt_conv_Cons)
  show ?case
  proof (cases "int k = max_retries - 1")
    case True
    then have "nat max_retries - k = 1" by linarith
    then show ?thesis by (simp add: range step r True)
  next
    case False
    then have lt: "Suc k < nat max_retries" using Suc.prems by linarith
    have d: "d = nat max_retries - Suc k" using Suc.hyps(2) by linarith
    from Suc.hyps(1) [OF d lt, of "Suc n" w1] obtain w' where
      "extract_attempts self page_url max_retries [Suc k..<nat max_retries] (Suc n) w1 =
         (Some ''Failed to fetch description'', Suc n + (nat max_retries - Suc k), w')"
      by blast
    moreover have "Suc n + (nat max_retries - Suc k) = n + (nat max_retries - k)"
      using lt by linarith
    ultimately show ?thesis by (simp add: range step r False)
  qed
qed

lemma extract_attempts_returns_string:
  "k < nat max_retries \<Longrightarrow>
   \<exists>s. fst (extract_attempts self page_url max_retries [k..<nat max_retries] n w) = Some s"
proof (induction "nat max_retries - k" arbitrary: k n w)
  case 0
  then show ?case by simp
next
  case (Suc d)
  obtain r w1 where step: "driver_description self w page_url = (r, w1)"
    by (cases "driver_description self w page_url")
  have range: "[k..<nat max_retries] = k # [Suc k..<nat max_retries]"
    using Suc.prems by (simp add: upt_conv_Cons)
  show ?case
  proof (cases r)
    case (Inr description)
    then show ?thesis by (simp add: range step)
  next
    case (Inl e)
    show ?thesis
    proof (cases "int k = max_retries - 1")
      case True
      then show ?thesis by (simp add: range step Inl)
    next
      case False
      then have lt: "Suc k < nat max_retries" using Suc.prems by linarith
      have d: "d = nat max_retries - Suc k" using Suc.hyps(2) by linarith
      from Suc.hyps(1) [OF d lt, of "Suc n" w1] show ?thesis
        by (simp add: range step Inl False)
    qed
  qed
qed

text \<open>
  Claim C2. For every URL and every \<open>max_retries \<ge> 1\<close>, when every attempt fails
  (in whatever state the world is), \<open>extract_job_description\<close> makes exactly
  \<open>max_retries\<close> attempts and returns the string \<open>Failed to fetch description\<close>;
  it returns, so nothing is raised to the caller.
\<close>

theorem extract_all_fail_sentinel:
  assumes "1 \<le> max_retries"
    and "\<forall>w. isl (fst (driver_description self w page_url))"
  shows "\<exists>w'. extract_job_description self page_url max_retries w =
           (Some ''Failed to fetch description'', nat max_retries, w')"
  using extract_attempts_all_fail [OF assms(2), of 0 max_retries 0 w] assms(1)
  by (simp add: extract_job_description_def)

theorem extract_all_fail_sentinel_witness:
  "1 \<le> (3::int)
   \<and> (\<forall>w. isl (fst (driver_description
                      (example_analyzer (Inl ExternalError) (Inl ExternalError)) w (Some ''u''))))
   \<and> extract_job_description (example_analyzer (Inl ExternalError) (Inl ExternalError))
         (Some ''u'') 3 0 =
       (Some ''Failed to fetch description'', 3, 3)"
proof -
  let ?self = "example_analyzer (Inl ExternalError) (Inl ExternalError)"
  have h: "\<forall>w. isl (fst (driver_description ?self w (Some ''u'')))"
    by (simp add: example_analyzer_def)
  have v: "extract_job_description ?self (Some ''u'') 3 0 =
       (Some ''Failed to fetch description'', 3, 3)"
    by (simp add: extract_job_description_def example_analyzer_def upt_conv_Cons)
  from extract_all_fail_sentinel [of 3, OF _ h, of 0] h v show ?thesis by simp
qed

text \<open>
  Claim C10. With \<open>max_retries \<le> 0\<close> the loop body never runs: no attempt is made
  and the result is \<open>None\<close>. With \<open>max_retries \<ge> 1\<close> the result is a string.
  When every attempt fails, the result is false for the test \<open>not description\<close> of
  \<open>process_jobs\<close> (the skip branch) exactly when it is \<open>None\<close>.
\<close>

theorem extract_none_without_attempts:
  "(max_retries \<le> 0 \<longrightarrow> extract_job_description self page_url max_retries w = (None, 0, w))
   \<and> (1 \<le> max_retries \<longrightarrow>
        (\<exists>s. fst (extract_job_description self page_url max_retries w) = Some s))
   \<and> ((\<forall>w'. isl (fst (driver_description self w' page_url))) \<longrightarrow>
        (\<not> truthy (fst (extract_job_description self page_url max_retries w))
           \<longleftrightarrow> fst (extract_job_description self page_url max_retries w) = None))"
proof (intro conjI impI)
  assume "max_retries \<le> 0"
  then show "extract_job_description self page_url max_retries w = (None, 0, w)"
    by (simp add: extract_job_description_def)
next
  assume "1 \<le> max_retries"
  then show "\<exists>s. fst (extract_job_description self page_url max_retries w) = Some s"
    using extract_attempts_returns_string [of 0 max_retries self page_url 0 w]
    by (simp add: extract_job_description_def)
next
  assume fail: "\<forall>w'. isl (fst (driver_description self w' page_url))"
  show "(\<not> truthy (fst (extract_job_description self page_url max_retries w)))
          = (fst (extract_job_description self page_url max_retries w) = None)"
  proof (cases "1 \<le> max_retries")
    case True
    with extract_attempts_all_fail [OF fail, of 0 max_retries 0 w] show ?thesis
      by (auto simp: extract_job_description_def truthy_def)
  next
    case False
    then show ?thesis by (simp add: extract_job_description_def truthy_def)
  qed
qed

theorem extract_none_without_attempts_witness:
  "extract_job_description (example_analyzer (Inl ExternalError) (Inl ExternalError))
      (Some ''u'') 0 5 = (None, 0, 5)
   \<and> (\<exists>s. fst (extract_job_description (example_analyzer (Inl ExternalError) (Inl ExternalError))
               (Some ''u'') 2 5) = Some s)
   \<and> (\<forall>w. isl (fst (driver_description
                      (example_analyzer (Inl ExternalError) (Inl ExternalError)) w (Some ''u''))))
   \<and> \<not> truthy (fst (extract_job_description
                      (example_analyzer (Inl ExternalError) (Inl ExternalError))
                      (Some ''u'') (- 1) 5))"
proof -
  let ?self = "example_analyzer (Inl ExternalError) (Inl ExternalError)"
  have h: "\<forall>w. isl (fst (driver_description ?self w (Some ''u'')))"
    by (simp add: example_analyzer_def)
  show ?thesis
    using extract_none_without_attempts [of 0 ?self "Some ''u''" 5]
      extract_none_without_attempts [of 2 ?self "Some ''u''" 5]
      extract_none_without_attempts [of "- 1" ?self "Some ''u''" 5] h
    by (simp add: truthy_def)
qed

section \<open>Match analyzer: fallback, success, recovery\<close>

lemma not_space_backtick: "\<not> is_space (CHR 0x60)"
  by (simp add: is_space_def)

lemma strip_no_space:
  assumes "s \<noteq> []" and "\<not> is_space (hd s)" and "\<not> is_space (last s)"
  shows "strip s = s"
proof -
  have front: "dropWhile is_space s = s"
    using assms(2) by (simp add: dropWhile_eq_self_iff)
  have "rev s \<noteq> []" and "hd (rev s) = last s"
    using assms(1) by (simp_all add: hd_rev)
  then have rear: "dropWhile is_space (rev s) = rev s"
    using assms(3) by (simp add: dropWhile_eq_self_iff)
  show ?thesis by (simp add: strip_def front rear)
qed

lemma startswith_append: "startswith (p @ s) p"
  by (simp add: startswith_def)

lemma endswith_append: "endswith (s @ p) p"
  by (simp add: endswith_def)

lemma clean_response_fenced:
  "clean_response (''```json'' @ body @ ''```'') = strip body"
proof -
  have s: "strip (''```json'' @ body @ ''```'') = ''```json'' @ body @ ''```''"
    by (rule strip_no_space) (simp_all add: not_space_backtick)
  have a: "startswith (''```json'' @ body @ ''```'') ''```json''"
    by (rule startswith_append)
  have b: "drop 7 (''```json'' @ body @ ''```'') = body @ ''```''"
    by simp
  have c: "endswith (body @ ''```'') ''```''"
    by (rule endswith_append)
  have d: "take (length (body @ ''```'') - 3) (body @ ''```'') = body"
    by simp
  show ?thesis
    by (simp only: clean_response_def Let_def s a b c d if_True)
qed

lemma create_fallback_analysis_present:
  assumes "map_of job_data ''search_category'' = Some v_category"
    and "map_of job_data ''title'' = Some v_title"
    and "map_of job_data ''company'' = Some v_company"
    and "map_of job_data ''location'' = Some v_location"
    and "map_of job_data ''url'' = Some v_url"
  shows "create_fallback_analysis job_data =
     Inr \<lparr> search_category = v_category, title = v_title, company = v_company,
           location = v_location, url = v_url, match_score = PInt 0,
           german_required = PStr ''No'', key_matches = ''Analysis failed'',
           missing_skills = ''Analysis failed'',
           recommendation = PStr ''Analysis failed - please review manually'' \<rparr>"
  using assms by (simp add: create_fallback_analysis_def dict_get_Some)

text \<open>
  The ways the body of the \<open>try\<close> raises that the specification lists: the completion
  call raises; the content is \<open>None\<close>; both decodings fail; a required field is
  missing from the decoded object.
\<close>

lemma analyze_response_oracle_error:
  "analyze_response loads job_data (Inl e) = Inl e"
  by (simp add: analyze_response_def)

lemma analyze_response_no_content:
  "analyze_response loads job_data (Inr None) = Inl AttributeError"
  by (simp add: analyze_response_def)

lemma analyze_response_decode_error:
  assumes "loads (strip content) = Inl JSONDecodeError"
    and "loads (clean_response (strip content)) = Inl e"
  shows "analyze_response loads job_data (Inr (Some content)) = Inl e"
  using assms by (simp add: analyze_response_def parse_json_def)

lemma check_fields_missing:
  "field \<in> set fs \<Longrightarrow> map_of kvs field = None \<Longrightarrow>
   \<exists>missing. check_fields (PDict kvs) fs = Inl (ValueError missing)"
  by (induction fs) auto

lemma analyze_response_missing_field:
  assumes "parse_json loads (strip content) = Inr (PDict kvs)"
    and "field \<in> set required_fields"
    and "map_of kvs field = None"
  shows "\<exists>missing. analyze_response loads job_data (Inr (Some content)) =
           Inl (ValueError missing)"
proof -
  from check_fields_missing [OF assms(2,3)] obtain missing where
    "check_fields (PDict kvs) required_fields = Inl (ValueError missing)" ..
  with assms(1) show ?thesis by (simp add: analyze_response_def)
qed

lemma analyze_try_raises:
  assumes "map_of job_data ''title'' = Some v_title"
    and "map_of job_data ''description'' = Some v_description"
    and "client self w v_title (resume self) v_description = (response, w')"
    and "analyze_response (json_loads self) job_data response = Inl e"
  shows "analyze_try self job_data w = (Inl e, w')"
  using assms by (simp add: analyze_try_def dict_get_Some)

text \<open>
  Claim C1. For every job dictionary that has the five identity keys, whenever the
  body of the \<open>try\<close> of \<open>analyze_with_gpt\<close> raises (the completion call, the
  decoding after the recovery attempt, the field check or anything else),
  \<open>analyze_with_gpt\<close> returns the fallback record: score 0, German \<open>No\<close>, the
  three fixed texts, the identity values copied. It returns it: nothing is raised.
\<close>

theorem analyze_failure_gives_fallback:
  assumes "map_of job_data ''search_category'' = Some v_category"
    and "map_of job_data ''title'' = Some v_title"
    and "map_of job_data ''company'' = Some v_company"
    and "map_of job_data ''location'' = Some v_location"
    and "map_of job_data ''url'' = Some v_url"
    and "analyze_try self job_data w = (Inl e, w')"
  shows "analyze_with_gpt self job_data w =
     (Inr \<lparr> search_category = v_category, title = v_title, company = v_company,
            location = v_location, url = v_url, match_score = PInt 0,
            german_required = PStr ''No'', key_matches = ''Analysis failed'',
            missing_skills = ''Analysis failed'',
            recommendation = PStr ''Analysis failed - please review manually'' \<rparr>, w')"
  using assms(2,6) create_fallback_analysis_present [OF assms(1-5)]
  by (simp add: analyze_with_gpt_def dict_get_Some)

theorem analyze_failure_gives_fallback_witness:
  "analyze_try (example_analyzer (Inr ''Own the roadmap'') (Inl ExternalError)) example_job 0 =
     (Inl ExternalError, 1)
   \<and> analyze_with_gpt (example_analyzer (Inr ''Own the roadmap'') (Inl ExternalError))
         example_job 0 =
       (Inr example_fallback, 1)"
proof -
  let ?self = "example_analyzer (Inr ''Own the roadmap'') (Inl ExternalError)"
  have h: "analyze_try ?self example_job 0 = (Inl ExternalError, 1)"
    by (simp add: analyze_try_def example_analyzer_def example_job_def dict_get_def
        analyze_response_def)
  from analyze_failure_gives_fallback [of example_job _ _ _ _ _ ?self 0 ExternalError 1, OF _ _ _ _ _ h]
  have "analyze_with_gpt ?self example_job 0 = (Inr example_fallback, 1)"
    by (simp add: example_job_def example_fallback_def)
  with h show ?thesis by simp
qed

lemma check_fields_dict:
  "\<forall>field \<in> set fs. map_of kvs field \<noteq> None \<Longrightarrow> check_fields (PDict kvs) fs = Inr ()"
  by (induction fs) auto

lemma list_all_is_PStr: "list_all is_PStr (map PStr xs)"
  by (induction xs) auto

lemma map_the_PStr: "map (the_PStr \<circ> PStr) xs = xs"
  by (induction xs) auto

lemma build_analysis_dict:
  assumes "map_of job_data ''search_category'' = Some v_category"
    and "map_of job_data ''title'' = Some v_title"
    and "map_of job_data ''company'' = Some v_company"
    and "map_of job_data ''location'' = Some v_location"
    and "map_of job_data ''url'' = Some v_url"
    and "map_of kvs ''match_score'' = Some v_score"
    and "map_of kvs ''german_required'' = Some v_german"
    and "map_of kvs ''key_matches'' = Some (PList (map PStr matches))"
    and "map_of kvs ''missing_skills'' = Some (PList (map PStr missing))"
    and "map_of kvs ''recommendation'' = Some v_recommendation"
  shows "build_analysis job_data (PDict kvs) =
     Inr \<lparr> search_category = v_category, title = v_title, company = v_company,
           location = v_location, url = v_url, match_score = v_score,
           german_required = v_german, key_matches = str_join ''; '' matches,
           missing_skills = str_join ''; '' missing,
           recommendation = v_recommendation \<rparr>"
  using assms
  by (simp add: build_analysis_def dict_get_Some list_all_is_PStr map_the_PStr)

text \<open>
  Claim C7. For every job dictionary with its six keys and every answer of the
  oracle that decodes to a JSON object holding the five required fields, with
  \<open>key_matches\<close> and \<open>missing_skills\<close> arrays of strings, \<open>analyze_with_gpt\<close>
  returns the record whose \<open>key_matches\<close> and \<open>missing_skills\<close> are the arrays joined
  with \<open>; \<close> and whose \<open>match_score\<close>, \<open>german_required\<close> (and
  \<open>recommendation\<close>) are the oracle's values unchanged.
\<close>

theorem analyze_success_joins_arrays:
  assumes "map_of job_data ''search_category'' = Some v_category"
    and "map_of job_data ''title'' = Some v_title"
    and "map_of job_data ''company'' = Some v_company"
    and "map_of job_data ''location'' = Some v_location"
    and "map_of job_data ''url'' = Some v_url"
    and "map_of job_data ''description'' = Some v_description"
    and "client self w v_title (resume self) v_description = (Inr (Some content), w')"
    and "json_loads self (strip content) = Inr (PDict kvs)"
    and "map_of kvs ''match_score'' = Some v_score"
    and "map_of kvs ''german_required'' = Some v_german"
    and "map_of kvs ''key_matches'' = Some (PList (map PStr matches))"
    and "map_of kvs ''missing_skills'' = Some (PList (map PStr missing))"
    and "map_of kvs ''recommendation'' = Some v_recommendation"
  shows "analyze_with_gpt self job_data w =
     (Inr \<lparr> search_category = v_category, title = v_title, company = v_company,
            location = v_location, url = v_url, match_score = v_score,
            german_required = v_german, key_matches = str_join ''; '' matches,
            missing_skills = str_join ''; '' missing,
            recommendation = v_recommendation \<rparr>, w')"
proof -
  have "check_fields (PDict kvs) required_fields = Inr ()"
    using assms(9-13) by (intro check_fields_dict) (simp add: required_fields_def)
  then have "analyze_response (json_loads self) job_data (Inr (Some content)) =
      build_analysis job_data (PDict kvs)"
    using assms(8) by (simp add: analyze_response_def parse_json_def)
  then show ?thesis
    using assms(2,6,7) build_analysis_dict [OF assms(1-5) assms(9-13)]
    by (simp add: analyze_with_gpt_def analyze_try_def dict_get_Some)
qed

theorem analyze_success_joins_arrays_witness:
  "client (example_analyzer (Inr ''Own the roadmap'') (Inr (Some example_text))) 0
       (Some ''Product Manager'') ''Ten years of product work'' (Some ''Own the roadmap'') =
     (Inr (Some example_text), 1)
   \<and> example_loads (strip example_text) = Inr example_result
   \<and> analyze_with_gpt (example_analyzer (Inr ''Own the roadmap'') (Inr (Some example_text)))
         example_job 0 =
       (Inr example_analyzed, 1)"
proof -
  let ?self = "example_analyzer (Inr ''Own the roadmap'') (Inr (Some example_text))"
  have c: "client ?self 0 (Some ''Product Manager'') (resume ?self) (Some ''Own the roadmap'') =
      (Inr (Some example_text), 1)"
    by (simp add: example_analyzer_def)
  have s: "strip example_text = example_text"
    by (rule strip_no_space) (simp_all add: example_text_def is_space_def)
  have l: "json_loads ?self (strip example_text) =
      Inr (PDict [(''match_score'', PInt 150), (''german_required'', PStr ''No''),
            (''key_matches'', PList (map PStr [''sql'', ''python''])),
            (''missing_skills'', PList (map PStr [''german''])),
            (''recommendation'', PStr ''apply'')])"
    by (simp add: s example_analyzer_def example_loads_def example_result_def)
  have "analyze_with_gpt ?self example_job 0 =
      (Inr \<lparr> search_category = Some ''product'', title = Some ''Product Manager'',
             company = Some ''Acme'', location = Some ''Berlin'',
             url = Some ''https://www.arbeitnow.com/jobs/1'', match_score = PInt 150,
             german_required = PStr ''No'',
             key_matches = str_join ''; '' [''sql'', ''python''],
             missing_skills = str_join ''; '' [''german''],
             recommendation = PStr ''apply'' \<rparr>, 1)"
    by (rule analyze_success_joins_arrays [OF _ _ _ _ _ _ c l])
      (simp_all add: example_job_def)
  then have "analyze_with_gpt ?self example_job 0 = (Inr example_analyzed, 1)"
    by (simp add: example_analyzed_def)
  moreover have "example_loads (strip example_text) = Inr example_result"
    by (simp add: s example_loads_def)
  ultimately show ?thesis
    using c by (simp add: example_analyzer_def)
qed

text \<open>
  Claim C8. For every answer of the oracle that is a JSON object wrapped in the code
  fence the specification names (three backticks and \<open>json\<close> before the body, three
  backticks after it), so that decoding the whole text raises \<open>JSONDecodeError\<close>
  while the stripped body decodes: the recovery step strips both fences, the second
  decoding succeeds, and the analysis is the one obtained when the oracle answers
  with the body alone.
\<close>

theorem json_fence_recovered:
  assumes "strip content = ''```json'' @ body @ ''```''"
    and "loads (strip content) = Inl JSONDecodeError"
    and "loads (strip body) = Inr result"
  shows "clean_response (strip content) = strip body
         \<and> parse_json loads (strip content) = Inr result
         \<and> analyze_response loads job_data (Inr (Some content)) =
             analyze_response loads job_data (Inr (Some body))"
proof -
  have c: "clean_response (strip content) = strip body"
    unfolding assms(1) by (rule clean_response_fenced)
  then have "parse_json loads (strip content) = Inr result"
    using assms(2,3) by (simp add: parse_json_def)
  moreover have "parse_json loads (strip body) = Inr result"
    using assms(3) by (simp add: parse_json_def)
  ultimately show ?thesis
    using c by (simp add: analyze_response_def)
qed

theorem json_fence_recovered_witness:
  "strip (''```json'' @ ''\<newline>'' @ example_text @ ''\<newline>'' @ ''```'') =
     ''```json'' @ (''\<newline>'' @ example_text @ ''\<newline>'') @ ''```''
   \<and> example_loads (strip (''```json'' @ ''\<newline>'' @ example_text @ ''\<newline>'' @ ''```'')) =
       Inl JSONDecodeError
   \<and> example_loads (strip (''\<newline>'' @ example_text @ ''\<newline>'')) = Inr example_result
   \<and> parse_json example_loads
         (strip (''```json'' @ ''\<newline>'' @ example_text @ ''\<newline>'' @ ''```'')) =
       Inr example_result
   \<and> analyze_response example_loads example_job
         (Inr (Some (''```json'' @ ''\<newline>'' @ example_text @ ''\<newline>'' @ ''```''))) =
       analyze_response example_loads example_job
         (Inr (Some (''\<newline>'' @ example_text @ ''\<newline>'')))"
proof -
  let ?body = "''\<newline>'' @ example_text @ ''\<newline>''"
  let ?content = "''```json'' @ ''\<newline>'' @ example_text @ ''\<newline>'' @ ''```''"
  have h1: "strip ?content = ''```json'' @ ?body @ ''```''"
    by (simp add: strip_def is_space_def example_text_def)
  have h2: "example_loads (strip ?content) = Inl JSONDecodeError"
    by (simp add: strip_def is_space_def example_loads_def example_text_def)
  have h3: "example_loads (strip ?body) = Inr example_result"
    by (simp add: strip_def is_space_def example_loads_def example_text_def)
  from json_fence_recovered [OF h1 h2 h3, of example_job] h1 h2 h3 show ?thesis
    by simp
qed

lemma upto_1_2: "[1..2] = [1, 2::int]"
  by (simp add: upto.simps)

lemmas run_defs = upto_1_2
  process_jobs_def scrape_page_def extract_basic_job_info_def List.map_filter_simps
  remove_duplicates_def dict_get_def process_job_try_def extract_job_description_def
  truthy_def analyze_with_gpt_def analyze_try_def analyze_response_def parse_json_def
  clean_response_def strip_def is_space_def startswith_def endswith_def
  required_fields_def build_analysis_def create_fallback_analysis_def save_results_def
  example_analyzer_def example_loads_def example_text_def example_result_def
  example_job_def example_listing_def example_analyzed_def example_fallback_def
  upt_conv_Cons

text \<open>
  The recovery looks for the tag: line 145 tests for a text that starts with
  \<open>```json\<close>. In the run below the same object stands between two untagged fences;
  the opening fence stays in place, the second decoding fails as the first did, and
  the result is the fallback record.
\<close>

lemma untagged_fence_falls_back:
  "analyze_with_gpt
     (example_analyzer (Inr ''Own the roadmap'')
        (Inr (Some (''```'' @ ''\<newline>'' @ example_text @ ''\<newline>'' @ ''```''))))
     example_job 0 =
     (Inr example_fallback, 1)"
  by (simp add: run_defs)

section \<open>Scores in the report\<close>

lemma bind_err_Inr: "bind_err m f = Inr y \<longleftrightarrow> (\<exists>x. m = Inr x \<and> f x = Inr y)"
  by (cases m) simp_all

lemma dict_get_Inr: "dict_get d k = Inr v \<longleftrightarrow> map_of d k = Some v"
  by (simp add: dict_get_def split: option.splits)

lemma py_getitem_Inr:
  "py_getitem result field = Inr v \<longleftrightarrow> (\<exists>kvs. result = PDict kvs \<and> map_of kvs field = Some v)"
  by (cases result) (auto split: option.splits)

lemma build_analysis_score:
  assumes "build_analysis job_data result = Inr analyzed"
  shows "\<exists>kvs. result = PDict kvs \<and> map_of kvs ''match_score'' = Some (match_score analyzed)"
proof -
  from assms obtain v_score where
    g: "py_getitem result ''match_score'' = Inr v_score" and m: "match_score analyzed = v_score"
    unfolding build_analysis_def bind_err_Inr by auto
  then show ?thesis by (auto simp: py_getitem_Inr)
qed

lemma build_analysis_title:
  assumes "build_analysis job_data result = Inr analyzed"
  shows "map_of job_data ''title'' = Some (title analyzed)"
proof -
  from assms obtain v_title where
    "dict_get job_data ''title'' = Inr v_title" and "title analyzed = v_title"
    unfolding build_analysis_def bind_err_Inr by auto
  then show ?thesis by (simp add: dict_get_Inr)
qed

text \<open>
  A successful analysis, step by step: the completion call returned a content, the
  content decoded to an object, and the score of the record is the object's.
\<close>

lemma analyze_response_answer:
  assumes "analyze_response loads job_data response = Inr analyzed"
  shows "\<exists>content kvs. response = Inr (Some content)
           \<and> parse_json loads (strip content) = Inr (PDict kvs)
           \<and> map_of kvs ''match_score'' = Some (match_score analyzed)
           \<and> map_of job_data ''title'' = Some (title analyzed)"
proof -
  from assms obtain answer response_text result where
    r: "response = Inr answer"
    and t: "(case answer of None \<Rightarrow> Inl AttributeError | Some c \<Rightarrow> Inr (strip c)) =
            Inr response_text"
    and p: "parse_json loads response_text = Inr result"
    and b: "build_analysis job_data result = Inr analyzed"
    unfolding analyze_response_def bind_err_Inr by auto
  from t obtain content where c: "answer = Some content" "response_text = strip content"
    by (cases answer) auto
  from build_analysis_score [OF b] obtain kvs where
    "result = PDict kvs" "map_of kvs ''match_score'' = Some (match_score analyzed)"
    by blast
  with r c p build_analysis_title [OF b] show ?thesis by auto
qed

lemma analyze_try_answer:
  assumes "analyze_try self job_data w = (Inr analyzed, w')"
  shows "\<exists>v_description content kvs.
           map_of job_data ''description'' = Some v_description
           \<and> client self w (title analyzed) (resume self) v_description =
               (Inr (Some content), w')
           \<and> parse_json (json_loads self) (strip content) = Inr (PDict kvs)
           \<and> map_of kvs ''match_score'' = Some (match_score analyzed)"
proof -
  from assms obtain v_title v_description response where
    t: "map_of job_data ''title'' = Some v_title"
    and d: "map_of job_data ''description'' = Some v_description"
    and c: "client self w v_title (resume self) v_description = (response, w')"
    and a: "analyze_response (json_loads self) job_data response = Inr analyzed"
    by (auto simp: analyze_try_def dict_get_def split: option.splits prod.splits)
  from analyze_response_answer [OF a] obtain content kvs where
    "response = Inr (Some content)"
    "parse_json (json_loads self) (strip content) = Inr (PDict kvs)"
    "map_of kvs ''match_score'' = Some (match_score analyzed)"
    "map_of job_data ''title'' = Some (title analyzed)"
    by blast
  with t d c show ?thesis by auto
qed

lemma create_fallback_analysis_score:
  "create_fallback_analysis job_data = Inr analyzed \<Longrightarrow> match_score analyzed = PInt 0"
  unfolding create_fallback_analysis_def bind_err_Inr by auto

text \<open>
  The score of one analysis, tied to the call that produced it: the fallback's 0, or
  the score in the answer the client gave in this state for this job.
\<close>

lemma analyze_with_gpt_answer:
  assumes "analyze_with_gpt self job_data w = (Inr analyzed, w')"
  shows "match_score analyzed = PInt 0
         \<or> (\<exists>v_description content kvs.
               map_of job_data ''description'' = Some v_description
               \<and> client self w (title analyzed) (resume self) v_description =
                   (Inr (Some content), w')
               \<and> parse_json (json_loads self) (strip content) = Inr (PDict kvs)
               \<and> map_of kvs ''match_score'' = Some (match_score analyzed))"
proof (cases "analyze_try self job_data w")
  case (Pair r w1)
  show ?thesis
  proof (cases r)
    case (Inr a)
    with Pair assms have "analyze_try self job_data w = (Inr analyzed, w')"
      by (simp add: analyze_with_gpt_def)
    from analyze_try_answer [OF this] show ?thesis by blast
  next
    case (Inl e)
    with Pair assms have "create_fallback_analysis job_data = Inr analyzed"
      by (auto simp: analyze_with_gpt_def split: sum.splits)
    then show ?thesis by (simp add: create_fallback_analysis_score)
  qed
qed

lemma analyze_with_gpt_score:
  assumes "analyze_with_gpt self job_data w = (Inr analyzed, w')"
  shows "score_from_oracle self analyzed"
  using analyze_with_gpt_answer [OF assms] unfolding score_from_oracle_def by blast

lemma process_job_try_score:
  assumes "process_job_try self job w = (Inr (Some analyzed), w')"
  shows "score_from_oracle self analyzed"
proof -
  from assms obtain job_data w1 where
    "analyze_with_gpt self job_data w1 = (Inr analyzed, w')"
    by (auto simp: process_job_try_def split: sum.splits prod.splits if_splits)
  then show ?thesis by (rule analyze_with_gpt_score)
qed

lemma analyze_jobs_invariant:
  assumes step: "\<And>job w a w'. process_job_try self job w = (Inr (Some a), w') \<Longrightarrow> P a"
  shows "analyze_jobs self jobs analyzed_jobs w = (Inr out, w') \<Longrightarrow>
         \<forall>a \<in> set analyzed_jobs. P a \<Longrightarrow> \<forall>a \<in> set out. P a"
proof (induction jobs arbitrary: analyzed_jobs w)
  case Nil
  then show ?case by simp
next
  case (Cons job rest)
  obtain r w1 where pj: "process_job_try self job w = (r, w1)"
    by (cases "process_job_try self job w")
  show ?case
  proof (cases r)
    case (Inl e)
    with Cons.prems(1) pj have "analyze_jobs self rest analyzed_jobs w1 = (Inr out, w')"
      by (auto split: sum.splits)
    from Cons.IH [OF this Cons.prems(2)] show ?thesis .
  next
    case (Inr opt)
    show ?thesis
    proof (cases opt)
      case None
      with Cons.prems(1) pj Inr have "analyze_jobs self rest analyzed_jobs w1 = (Inr out, w')"
        by simp
      from Cons.IH [OF this Cons.prems(2)] show ?thesis .
    next
      case (Some a)
      with Cons.prems(1) pj Inr have
        run: "analyze_jobs self rest (analyzed_jobs @ [a]) w1 = (Inr out, w')"
        by simp
      from pj Inr Some have "P a" by (auto intro: step)
      with Cons.prems(2) have "\<forall>x \<in> set (analyzed_jobs @ [a]). P x" by simp
      from Cons.IH [OF run this] show ?thesis .
    qed
  qed
qed

lemma save_results_rows:
  "rows \<in> set (csv_files (snd (save_results statistics analyzed_jobs))) \<Longrightarrow>
   row \<in> set rows \<Longrightarrow> snd row \<in> set analyzed_jobs"
  by (cases row)
    (auto simp: save_results_def Let_def split: if_splits dest: set_zip_rightD)

lemma process_jobs_written:
  assumes "process_jobs self statistics w = (outcome, r, w')"
  shows "r = \<lparr> csv_files = [], summary_total = None \<rparr>
         \<or> (\<exists>unique_jobs w1 analyzed_jobs.
               analyze_jobs self unique_jobs [] w1 = (Inr analyzed_jobs, w')
               \<and> save_results statistics analyzed_jobs = (outcome, r))"
  using assms by (auto simp: process_jobs_def split: prod.splits sum.splits)

text \<open>
  Claim C3 as stated fails: the score of the oracle is copied into the report
  unchecked. In the run below the oracle answers with the score 150, and the one row
  of the report carries 150.
\<close>

theorem report_score_above_range:
  "process_jobs (example_analyzer (Inr ''Own the roadmap'') (Inr (Some example_text)))
     (\<lambda>df. Inr ()) 0 =
     (Inr (), \<lparr> csv_files = [[(1, example_analyzed)]], summary_total = Some 1 \<rparr>, 4)
   \<and> match_score example_analyzed = PInt 150
   \<and> \<not> score_in_range (PInt 150)"
  by (simp add: run_defs)

text \<open>
  Claim C3, as amended. For every row of a report that \<open>process_jobs\<close> writes, the
  score is the 0 of the fallback record or the \<open>match_score\<close> value, unchanged, of the
  object that an answer of the oracle for a job of the row's title decodes to; so
  every score in the report is an integer from 0 to 100 whenever every \<open>match_score\<close>
  in an answer of the oracle is one.
\<close>

theorem report_scores_from_oracle:
  assumes "process_jobs self statistics w = (outcome, r, w')"
  shows "(\<forall>rows \<in> set (csv_files r). \<forall>row \<in> set rows. score_from_oracle self (snd row))
         \<and> ((\<forall>w0 v_title v_description content w1 kvs v.
                 client self w0 v_title (resume self) v_description = (Inr (Some content), w1)
                 \<longrightarrow> parse_json (json_loads self) (strip content) = Inr (PDict kvs)
                 \<longrightarrow> map_of kvs ''match_score'' = Some v
                 \<longrightarrow> score_in_range v)
              \<longrightarrow> (\<forall>rows \<in> set (csv_files r). \<forall>row \<in> set rows.
                     score_in_range (match_score (snd row))))"
proof -
  have first: "\<forall>rows \<in> set (csv_files r). \<forall>row \<in> set rows. score_from_oracle self (snd row)"
  proof (cases "r = \<lparr> csv_files = [], summary_total = None \<rparr>")
    case True
    then show ?thesis by simp
  next
    case False
    with process_jobs_written [OF assms] obtain unique_jobs w1 analyzed_jobs where
      run: "analyze_jobs self unique_jobs [] w1 = (Inr analyzed_jobs, w')"
      and r: "save_results statistics analyzed_jobs = (outcome, r)"
      by blast
    have "\<forall>a \<in> set analyzed_jobs. score_from_oracle self a"
      by (rule analyze_jobs_invariant [OF _ run]) (auto dest: process_job_try_score)
    moreover from r have "r = snd (save_results statistics analyzed_jobs)"
      by simp
    ultimately show ?thesis by (auto dest: save_results_rows)
  qed
  moreover have "\<forall>rows \<in> set (csv_files r). \<forall>row \<in> set rows.
        score_in_range (match_score (snd row))"
    if range: "\<forall>w0 v_title v_description content w1 kvs v.
         client self w0 v_title (resume self) v_description = (Inr (Some content), w1)
         \<longrightarrow> parse_json (json_loads self) (strip content) = Inr (PDict kvs)
         \<longrightarrow> map_of kvs ''match_score'' = Some v
         \<longrightarrow> score_in_range v"
  proof (intro ballI)
    fix rows row assume "rows \<in> set (csv_files r)" "row \<in> set rows"
    with first have "score_from_oracle self (snd row)" by blast
    then show "score_in_range (match_score (snd row))"
      unfolding score_from_oracle_def
    proof (elim disjE exE conjE)
      assume "match_score (snd row) = PInt 0"
      then show ?thesis by simp
    next
      fix w0 v_description content w1 kvs
      assume "client self w0 (title (snd row)) (resume self) v_description =
                (Inr (Some content), w1)"
        and "parse_json (json_loads self) (strip content) = Inr (PDict kvs)"
        and "map_of kvs ''match_score'' = Some (match_score (snd row))"
      with range show ?thesis by blast
    qed
  qed
  ultimately show ?thesis by blast
qed

theorem report_scores_from_oracle_witness:
  "process_jobs
     ((example_analyzer (Inr ''Own the roadmap'') (Inr (Some modest_text)))
        \<lparr> json_loads := modest_loads \<rparr>) (\<lambda>df. Inr ()) 0 =
     (Inr (), \<lparr> csv_files = [[(1, modest_analyzed)]], summary_total = Some 1 \<rparr>, 4)
   \<and> modest_loads example_text = Inr example_result
   \<and> score_in_range (match_score modest_analyzed)"
proof -
  let ?self = "(example_analyzer (Inr ''Own the roadmap'') (Inr (Some modest_text)))
                 \<lparr> json_loads := modest_loads \<rparr>"
  have run: "process_jobs ?self (\<lambda>df. Inr ()) 0 =
      (Inr (), \<lparr> csv_files = [[(1, modest_analyzed)]], summary_total = Some 1 \<rparr>, 4)"
    by (simp add: run_defs modest_loads_def modest_text_def modest_result_def
        modest_analyzed_def)
  have s: "strip modest_text = modest_text"
    by (rule strip_no_space) (simp_all add: modest_text_def is_space_def)
  have decoded: "parse_json modest_loads modest_text = Inr modest_result"
    by (simp add: parse_json_def modest_loads_def modest_text_def example_text_def)
  have range: "\<forall>w0 v_title v_description content w1 kvs v.
      client ?self w0 v_title (resume ?self) v_description = (Inr (Some content), w1)
      \<longrightarrow> parse_json (json_loads ?self) (strip content) = Inr (PDict kvs)
      \<longrightarrow> map_of kvs ''match_score'' = Some v
      \<longrightarrow> score_in_range v"
    by (auto simp: example_analyzer_def s decoded modest_result_def)
  have "score_in_range (match_score modest_analyzed)"
    using report_scores_from_oracle [OF run] range by simp
  moreover have "modest_loads example_text = Inr example_result"
    by (simp add: modest_loads_def)
  ultimately show ?thesis using run by simp
qed

section \<open>Second pass: which jobs are analysed\<close>

lemma analyze_with_gpt_handler:
  assumes "map_of job_data ''search_category'' = Some v_category"
    and "map_of job_data ''title'' = Some v_title"
    and "map_of job_data ''company'' = Some v_company"
    and "map_of job_data ''location'' = Some v_location"
    and "map_of job_data ''url'' = Some v_url"
  shows "\<exists>analyzed w'. analyze_with_gpt self job_data w = (Inr analyzed, w')"
proof (cases "analyze_try self job_data w")
  case (Pair r w1)
  show ?thesis
  proof (cases r)
    case (Inr a)
    with Pair show ?thesis by (simp add: analyze_with_gpt_def)
  next
    case (Inl e)
    with Pair assms show ?thesis
      by (simp add: analyze_with_gpt_def create_fallback_analysis_def dict_get_Some)
  qed
qed

lemma analyze_jobs_prefix:
  "analyze_jobs self jobs analyzed_jobs w = (Inr out, w') \<Longrightarrow> prefix analyzed_jobs out"
proof (induction jobs arbitrary: analyzed_jobs w)
  case Nil
  then show ?case by simp
next
  case (Cons job rest)
  then show ?case
    by (auto split: prod.splits sum.splits option.splits dest: append_prefixD)
qed

text \<open>
  Claim C4 as stated fails on a description that was fetched and is empty: the test
  \<open>not description\<close> is true for it, the job is skipped, the oracle is never
  called (three calls were made: two listing pages, one description), and no report is
  written.
\<close>

theorem empty_description_skipped:
  "process_jobs (example_analyzer (Inr []) (Inr (Some example_text))) (\<lambda>df. Inr ()) 0 =
     (Inr (), \<lparr> csv_files = [], summary_total = None \<rparr>, 3)"
  by (simp add: run_defs)

text \<open>
  Claim C4, as amended. For every job with its identity keys, in the second pass:
  when the fetch returns the failure sentinel, the job is passed to
  \<open>analyze_with_gpt\<close> and its analysis is a row of the list the report is made from;
  when the fetch returns \<open>None\<close> or the empty string, the job is skipped before the
  analysis; and a job reaches the analysis exactly when the fetched description is
  neither \<open>None\<close> nor empty.
\<close>

theorem falsy_description_skips_job:
  assumes "map_of job ''search_category'' = Some v_category"
    and "map_of job ''title'' = Some v_title"
    and "map_of job ''company'' = Some v_company"
    and "map_of job ''location'' = Some v_location"
    and "map_of job ''url'' = Some v_url"
    and "extract_job_description self v_url 3 w = (description, n, w1)"
  shows "(description = Some ''Failed to fetch description'' \<longrightarrow>
           (\<exists>analyzed w2.
              analyze_with_gpt self (AList.update ''description'' description job) w1 =
                (Inr analyzed, w2)
              \<and> process_job_try self job w = (Inr (Some analyzed), w2)
              \<and> (\<forall>rest analyzed_jobs out w'.
                    analyze_jobs self (job # rest) analyzed_jobs w = (Inr out, w')
                    \<longrightarrow> analyzed \<in> set out)))
         \<and> ((description = None \<or> description = Some [])
              \<longrightarrow> process_job_try self job w = (Inr None, w1))
         \<and> ((\<exists>analyzed w2. process_job_try self job w = (Inr (Some analyzed), w2))
              \<longleftrightarrow> (description \<noteq> None \<and> description \<noteq> Some []))"
proof -
  let ?job = "AList.update ''description'' description job"
  have "\<exists>analyzed w2. analyze_with_gpt self ?job w1 = (Inr analyzed, w2)"
    by (rule analyze_with_gpt_handler [where v_category = v_category and v_title = v_title
          and v_company = v_company and v_location = v_location and v_url = v_url])
       (simp_all add: update_conv' assms)
  then obtain analyzed w2 where a: "analyze_with_gpt self ?job w1 = (Inr analyzed, w2)"
    by blast
  have truthy_eq: "truthy description \<longleftrightarrow> description \<noteq> None \<and> description \<noteq> Some []"
    by (cases description) (simp_all add: truthy_def)
  have skip: "\<not> truthy description \<Longrightarrow> process_job_try self job w = (Inr None, w1)"
    using assms(2,5,6) by (simp add: process_job_try_def dict_get_Some)
  have keep: "truthy description \<Longrightarrow> process_job_try self job w = (Inr (Some analyzed), w2)"
    using assms(2,5,6) a by (simp add: process_job_try_def dict_get_Some)
  have row: "analyzed \<in> set out"
    if t: "truthy description"
      and run: "analyze_jobs self (job # rest) analyzed_jobs w = (Inr out, w')"
    for rest analyzed_jobs out w'
  proof -
    from run keep [OF t] have "analyze_jobs self rest (analyzed_jobs @ [analyzed]) w2 = (Inr out, w')"
      by simp
    from analyze_jobs_prefix [OF this] show ?thesis
      by (auto simp: prefix_def)
  qed
  have sentinel: "truthy (Some ''Failed to fetch description'')"
    by (simp add: truthy_def)
  show ?thesis
  proof (intro conjI impI)
    assume d: "description = Some ''Failed to fetch description''"
    with sentinel have t: "truthy description" by simp
    show "\<exists>analyzed w2.
              analyze_with_gpt self (AList.update ''description'' description job) w1 =
                (Inr analyzed, w2)
              \<and> process_job_try self job w = (Inr (Some analyzed), w2)
              \<and> (\<forall>rest analyzed_jobs out w'.
                    analyze_jobs self (job # rest) analyzed_jobs w = (Inr out, w')
                    \<longrightarrow> analyzed \<in> set out)"
      using a keep [OF t] row [OF t] by blast
  next
    assume "description = None \<or> description = Some []"
    then have "\<not> truthy description" using truthy_eq by blast
    then show "process_job_try self job w = (Inr None, w1)" by (rule skip)
  next
    show "(\<exists>analyzed w2. process_job_try self job w = (Inr (Some analyzed), w2))
            = (description \<noteq> None \<and> description \<noteq> Some [])"
      using skip keep truthy_eq by (cases "truthy description") auto
  qed
qed

theorem falsy_description_skips_job_witness:
  "extract_job_description (example_analyzer (Inl ExternalError) (Inr (Some example_text)))
      (Some ''https://www.arbeitnow.com/jobs/1'') 3 0 =
     (Some ''Failed to fetch description'', 3, 3)
   \<and> process_job_try (example_analyzer (Inl ExternalError) (Inr (Some example_text)))
         example_listing 0 =
       (Inr (Some example_analyzed), 4)
   \<and> extract_job_description (example_analyzer (Inr []) (Inr (Some example_text)))
        (Some ''https://www.arbeitnow.com/jobs/1'') 3 0 =
       (Some [], 1, 1)
   \<and> process_job_try (example_analyzer (Inr []) (Inr (Some example_text)))
         example_listing 0 =
       (Inr None, 1)"
proof -
  let ?failing = "example_analyzer (Inl ExternalError) (Inr (Some example_text))"
  let ?empty = "example_analyzer (Inr []) (Inr (Some example_text))"
  let ?url = "Some ''https://www.arbeitnow.com/jobs/1''"
  have f: "extract_job_description ?failing ?url 3 0 =
      (Some ''Failed to fetch description'', 3, 3)"
    by (simp add: extract_job_description_def example_analyzer_def upt_conv_Cons)
  have e: "extract_job_description ?empty ?url 3 0 = (Some [], 1, 1)"
    by (simp add: extract_job_description_def example_analyzer_def upt_conv_Cons)
  have a: "analyze_with_gpt ?failing
      (AList.update ''description'' (Some ''Failed to fetch description'') example_listing) 3 =
      (Inr example_analyzed, 4)"
    by (simp add: run_defs)
  have p1: "map_of example_listing ''search_category'' = Some (Some ''product'')"
    and p2: "map_of example_listing ''title'' = Some (Some ''Product Manager'')"
    and p3: "map_of example_listing ''company'' = Some (Some ''Acme'')"
    and p4: "map_of example_listing ''location'' = Some (Some ''Berlin'')"
    and p5: "map_of example_listing ''url'' = Some ?url"
    by (simp_all add: example_listing_def)
  from falsy_description_skips_job [OF p1 p2 p3 p4 p5 f]
  obtain analyzed w2 where
    "analyze_with_gpt ?failing
       (AList.update ''description'' (Some ''Failed to fetch description'') example_listing) 3 =
       (Inr analyzed, w2)"
    and "process_job_try ?failing example_listing 0 = (Inr (Some analyzed), w2)"
    by blast
  with a have "process_job_try ?failing example_listing 0 = (Inr (Some example_analyzed), 4)"
    by simp
  moreover from falsy_description_skips_job [OF p1 p2 p3 p4 p5 e]
  have "process_job_try ?empty example_listing 0 = (Inr None, 1)"
    by blast
  ultimately show ?thesis using f e by simp
qed

section \<open>Pagination\<close>





section \<open>Report\<close>

text \<open>
  The save block read with line 361 at the column of its neighbours. Without analyzed
  jobs no file is written and no summary is printed; with \<open>N \<ge> 1\<close> analyzed jobs
  exactly one file is written, it has \<open>N\<close> rows, its first column holds 1 to \<open>N\<close>
  in order, and the rest of the rows are the analyzed jobs.
\<close>

lemma report_rows_numbered:
  "(analyzed_jobs = [] \<longrightarrow>
      save_results statistics analyzed_jobs =
        (Inr (), \<lparr> csv_files = [], summary_total = None \<rparr>))
   \<and> (analyzed_jobs \<noteq> [] \<longrightarrow>
        (\<exists>rows. csv_files (snd (save_results statistics analyzed_jobs)) = [rows]
           \<and> length rows = length analyzed_jobs
           \<and> map fst rows = [1..int (length analyzed_jobs)]
           \<and> map snd rows = analyzed_jobs
           \<and> summary_total (snd (save_results statistics analyzed_jobs)) =
               Some (length analyzed_jobs)
           \<and> fst (save_results statistics analyzed_jobs) = statistics rows))"
  by (simp add: save_results_def Let_def)

lemma report_rows_numbered_example:
  "save_results (\<lambda>df. Inr ()) [example_analyzed, example_fallback] =
     (Inr (), \<lparr> csv_files = [[(1, example_analyzed), (2, example_fallback)]],
               summary_total = Some 2 \<rparr>)"
  by (simp add: save_results_def Let_def upto_1_2)

text \<open>
  Claim C9, on the source as shipped. Line 361 starts at column 10 while the open
  indentation levels are 12, 8, 4 and 0: Python refuses the line, the file does not
  compile, and no run of \<open>process_jobs\<close> writes a report, whatever the number of
  analyzed jobs.
\<close>

theorem save_block_refused:
  "refused_line save_block_columns 357 [8, 4, 0] = Some 361"
  by (simp add: save_block_columns_def layout_line_def)

end
